theory Spec2Isabelle
  imports Main "HOL-Library.Char_ord" "HOL-Library.List_Lexorder" "HOL-Library.Multiset"
begin

section \<open>Data model\<close>

text \<open>
  The dataclass \<open>InventoryTransaction\<close> of \<open>inventory_system.py\<close>. Python integers are
  unbounded, hence \<open>int\<close>; an \<open>Optional\<close> field is an \<open>option\<close>.
\<close>

record InventoryTransaction =
  product_id :: int
  location_id :: int
  transaction_type_id :: int
  quantity :: int
  reference_number :: "string option"
  "notes" :: "string option"
  created_by :: "string option"
  transaction_id :: "int option"
  transaction_date :: "string option"

text \<open>
  Rows of the relations the SQL statements of \<open>InventoryManager\<close> name. Field prefixes
  follow the table aliases of the source (\<open>t\<close>, \<open>i\<close>, \<open>p\<close>, \<open>l\<close>, \<open>tt\<close>). Only the columns
  the statements read or write are kept.
\<close>

record transaction_type_row =
  tt_transaction_type_id :: int
  tt_name :: string
  tt_affects_inventory :: int

record product_row =
  p_product_id :: int
  p_name :: string
  p_sku :: string

record location_row =
  l_location_id :: int
  l_name :: string

record ledger_row =
  t_transaction_id :: int
  t_product_id :: int
  t_location_id :: int
  t_transaction_type_id :: int
  t_quantity :: int
  t_transaction_date :: string
  t_reference_number :: "string option"
  t_notes :: "string option"
  t_created_by :: "string option"

record inventory_row =
  i_inventory_id :: int
  i_product_id :: int
  i_location_id :: int
  i_quantity :: int
  i_last_counted_at :: "string option"
  i_updated_at :: "string option"

text \<open>
  A row of \<open>get_transaction_history\<close>: \<open>SELECT t.*, p.name as product_name, p.sku,
  l.name as location_name, tt.name as transaction_type\<close>.
\<close>

record history_row =
  h_entry :: ledger_row
  h_product_name :: string
  h_sku :: string
  h_location_name :: string
  h_transaction_type :: string

text \<open>
  Tables are lists of rows in insertion order: nothing in the Python prevents two
  \<open>inventory\<close> rows for one (product, location) pair, so duplicates are representable.
\<close>

record tables =
  transaction_types :: "transaction_type_row list"
  products :: "product_row list"
  locations :: "location_row list"
  inventory_transactions :: "ledger_row list"
  inventory :: "inventory_row list"

text \<open>
  The single shared \<open>sqlite3\<close> connection of \<open>DatabaseManager\<close>: what has been committed
  (\<open>durable\<close>) and what the connection currently sees, pending writes included
  (\<open>working\<close>).
\<close>

record connection =
  durable :: tables
  working :: tables

text \<open>The statements the modelled methods send to the connection.\<close>

datatype stmt =
  Begin_Transaction
  | Select_Transaction_Type
  | Insert_Transaction
  | Select_Inventory
  | Update_Inventory
  | Insert_Inventory
  | Commit
  | Select_Quantity
  | Update_Recount
  | Insert_Recount
  | Select_History

text \<open>
  Exceptions as values: the \<open>ValueError\<close> raised for an unknown transaction type (with
  the offending id), and an exception raised by the storage layer while it runs a
  statement.
\<close>

datatype error =
  ValueError int
  | DatabaseError stmt

text \<open>
  What a call takes from its environment: the formatted \<open>datetime.datetime.now()\<close>, the
  value of SQL \<open>CURRENT_TIMESTAMP\<close>, the default the schema (\<open>inventory_schema.sql\<close>, not
  among the sources) gives \<open>inventory.updated_at\<close> on insert, and the statements the
  storage layer refuses during the call (constraint violations of that schema and
  I/O failures alike).
\<close>

record env =
  now :: string
  current_timestamp :: string
  updated_at_default :: "string option"
  faults :: "stmt set"

section \<open>The connection\<close>

definition commit :: "connection \<Rightarrow> connection" where
  "commit c = c\<lparr>durable := working c\<rparr>"

definition rollback :: "connection \<Rightarrow> connection" where
  "rollback c = c\<lparr>working := durable c\<rparr>"

text \<open>
  The rowid SQLite assigns to a row inserted without one: one more than the largest in
  the table, 1 in an empty table.
\<close>

definition next_rowid :: "int list \<Rightarrow> int" where
  "next_rowid ids = fold max ids 0 + 1"

text \<open>
  \<open>DatabaseManager.execute_query\<close>: runs a SELECT, given as a function of the tables, and
  returns its rows; an exception is logged and raised again.
\<close>

definition execute_query ::
  "env \<Rightarrow> connection \<Rightarrow> stmt \<Rightarrow> (tables \<Rightarrow> 'r list) \<Rightarrow> (error + 'r list) \<times> connection" where
  "execute_query ev c s q =
     (if s \<in> faults ev then (Inl (DatabaseError s), c)
      else (Inr (q (working c)), c))"

text \<open>
  \<open>DatabaseManager.execute_insert\<close>: runs the statement, commits, returns
  \<open>cursor.lastrowid\<close>; on an exception from either step it rolls back and raises.
\<close>

definition execute_insert ::
  "env \<Rightarrow> connection \<Rightarrow> stmt \<Rightarrow> (tables \<Rightarrow> tables \<times> int) \<Rightarrow> (error + int) \<times> connection" where
  "execute_insert ev c s f =
     (if s \<in> faults ev then (Inl (DatabaseError s), rollback c)
      else (case f (working c) of
        (w, lastrowid) \<Rightarrow>
          (if Commit \<in> faults ev then (Inl (DatabaseError Commit), rollback (c\<lparr>working := w\<rparr>))
           else (Inr lastrowid, commit (c\<lparr>working := w\<rparr>)))))"

text \<open>\<open>DatabaseManager.execute_update\<close>: the same, returning \<open>cursor.rowcount\<close>.\<close>

definition execute_update ::
  "env \<Rightarrow> connection \<Rightarrow> stmt \<Rightarrow> (tables \<Rightarrow> tables \<times> int) \<Rightarrow> (error + int) \<times> connection" where
  "execute_update ev c s f =
     (if s \<in> faults ev then (Inl (DatabaseError s), rollback c)
      else (case f (working c) of
        (w, rowcount) \<Rightarrow>
          (if Commit \<in> faults ev then (Inl (DatabaseError Commit), rollback (c\<lparr>working := w\<rparr>))
           else (Inr rowcount, commit (c\<lparr>working := w\<rparr>)))))"

section \<open>The SQL statements of InventoryManager\<close>

text \<open>\<open>WHERE product_id = ? AND location_id = ?\<close> on \<open>inventory\<close>.\<close>

definition at_pair :: "int \<Rightarrow> int \<Rightarrow> inventory_row \<Rightarrow> bool" where
  "at_pair pid lid i = (i_product_id i = pid \<and> i_location_id i = lid)"

text \<open>\<open>SELECT quantity FROM inventory WHERE product_id = ? AND location_id = ?\<close>\<close>

definition sql_select_quantity :: "int \<Rightarrow> int \<Rightarrow> tables \<Rightarrow> int list" where
  "sql_select_quantity pid lid T = map i_quantity (filter (at_pair pid lid) (inventory T))"

text \<open>
  \<open>UPDATE inventory SET quantity = ?, last_counted_at = ?, updated_at = CURRENT_TIMESTAMP
  WHERE product_id = ? AND location_id = ?\<close>
\<close>

definition sql_update_recount ::
  "string \<Rightarrow> int \<Rightarrow> string \<Rightarrow> int \<Rightarrow> int \<Rightarrow> tables \<Rightarrow> tables \<times> int" where
  "sql_update_recount ts new_quantity counted_at pid lid T =
     (T\<lparr>inventory :=
          map (\<lambda>i. if at_pair pid lid i
                    then i\<lparr>i_quantity := new_quantity, i_last_counted_at := Some counted_at,
                           i_updated_at := Some ts\<rparr>
                    else i) (inventory T)\<rparr>,
      int (length (filter (at_pair pid lid) (inventory T))))"

text \<open>
  \<open>INSERT INTO inventory (product_id, location_id, quantity, last_counted_at)
  VALUES (?, ?, ?, ?)\<close>
\<close>

definition sql_insert_recount ::
  "string option \<Rightarrow> int \<Rightarrow> int \<Rightarrow> int \<Rightarrow> string \<Rightarrow> tables \<Rightarrow> tables \<times> int" where
  "sql_insert_recount dflt pid lid new_quantity counted_at T =
     (let rowid = next_rowid (map i_inventory_id (inventory T)) in
      (T\<lparr>inventory := inventory T @
            [\<lparr>i_inventory_id = rowid, i_product_id = pid, i_location_id = lid,
              i_quantity = new_quantity, i_last_counted_at = Some counted_at,
              i_updated_at = dflt\<rparr>]\<rparr>,
       rowid))"

text \<open>
  \<open>SELECT affects_inventory FROM transaction_types WHERE transaction_type_id = ?\<close>
  followed by \<open>fetchone()\<close>.
\<close>

definition sql_select_affects :: "int \<Rightarrow> tables \<Rightarrow> transaction_type_row option" where
  "sql_select_affects tid T =
     find (\<lambda>r. tt_transaction_type_id r = tid) (transaction_types T)"

text \<open>
  \<open>INSERT INTO inventory_transactions (product_id, location_id, transaction_type_id,
  quantity, transaction_date, reference_number, notes, created_by) VALUES (...)\<close>,
  with the rowid it is given.
\<close>

definition new_ledger_row :: "int \<Rightarrow> string \<Rightarrow> InventoryTransaction \<Rightarrow> ledger_row" where
  "new_ledger_row rowid date tx =
     \<lparr>t_transaction_id = rowid, t_product_id = product_id tx,
      t_location_id = location_id tx, t_transaction_type_id = transaction_type_id tx,
      t_quantity = quantity tx, t_transaction_date = date,
      t_reference_number = reference_number tx, t_notes = notes tx,
      t_created_by = created_by tx\<rparr>"

definition sql_insert_transaction :: "string \<Rightarrow> InventoryTransaction \<Rightarrow> tables \<Rightarrow> tables \<times> int" where
  "sql_insert_transaction date tx T =
     (let rowid = next_rowid (map t_transaction_id (inventory_transactions T)) in
      (T\<lparr>inventory_transactions := inventory_transactions T @ [new_ledger_row rowid date tx]\<rparr>,
       rowid))"

text \<open>
  \<open>SELECT inventory_id, quantity FROM inventory WHERE product_id = ? AND location_id = ?\<close>
  followed by \<open>fetchone()\<close>.
\<close>

definition sql_select_inventory :: "int \<Rightarrow> int \<Rightarrow> tables \<Rightarrow> inventory_row option" where
  "sql_select_inventory pid lid T = find (at_pair pid lid) (inventory T)"

text \<open>
  \<open>UPDATE inventory SET quantity = ?, updated_at = CURRENT_TIMESTAMP
  WHERE product_id = ? AND location_id = ?\<close>
\<close>

definition sql_update_inventory :: "string \<Rightarrow> int \<Rightarrow> int \<Rightarrow> int \<Rightarrow> tables \<Rightarrow> tables" where
  "sql_update_inventory ts new_quantity pid lid T =
     T\<lparr>inventory :=
         map (\<lambda>i. if at_pair pid lid i
                   then i\<lparr>i_quantity := new_quantity, i_updated_at := Some ts\<rparr>
                   else i) (inventory T)\<rparr>"

text \<open>\<open>INSERT INTO inventory (product_id, location_id, quantity) VALUES (?, ?, ?)\<close>\<close>

definition sql_insert_inventory :: "string option \<Rightarrow> int \<Rightarrow> int \<Rightarrow> int \<Rightarrow> tables \<Rightarrow> tables" where
  "sql_insert_inventory dflt pid lid qty T =
     T\<lparr>inventory := inventory T @
         [\<lparr>i_inventory_id = next_rowid (map i_inventory_id (inventory T)),
           i_product_id = pid, i_location_id = lid, i_quantity = qty,
           i_last_counted_at = None, i_updated_at = dflt\<rparr>]\<rparr>"

section \<open>InventoryManager\<close>

subsection \<open>get_product_quantity\<close>

definition get_product_quantity ::
  "env \<Rightarrow> connection \<Rightarrow> int \<Rightarrow> int \<Rightarrow> (error + int) \<times> connection" where
  "get_product_quantity ev c pid lid =
     (case execute_query ev c Select_Quantity (sql_select_quantity pid lid) of
        (Inl e, c') \<Rightarrow> (Inl e, c')
      | (Inr results, c') \<Rightarrow> (Inr (case results of [] \<Rightarrow> 0 | q # _ \<Rightarrow> q), c'))"

subsection \<open>update_inventory_quantity\<close>

text \<open>
  The existence test of the source is \<open>current_quantity > 0\<close>; \<open>counted_at\<close> defaults to
  the current time. The method returns \<open>True\<close> or raises.
\<close>

definition update_inventory_quantity ::
  "env \<Rightarrow> connection \<Rightarrow> int \<Rightarrow> int \<Rightarrow> int \<Rightarrow> string option \<Rightarrow> (error + bool) \<times> connection" where
  "update_inventory_quantity ev c pid lid new_quantity counted_at_opt =
     (case get_product_quantity ev c pid lid of
        (Inl e, c1) \<Rightarrow> (Inl e, c1)
      | (Inr current_quantity, c1) \<Rightarrow>
          (let counted_at = (case counted_at_opt of None \<Rightarrow> now ev | Some s \<Rightarrow> s) in
           if current_quantity > 0
           then (case execute_update ev c1 Update_Recount
                        (sql_update_recount (current_timestamp ev) new_quantity counted_at pid lid) of
                   (Inl e, c2) \<Rightarrow> (Inl e, c2)
                 | (Inr _, c2) \<Rightarrow> (Inr True, c2))
           else (case execute_insert ev c1 Insert_Recount
                        (sql_insert_recount (updated_at_default ev) pid lid new_quantity counted_at) of
                   (Inl e, c2) \<Rightarrow> (Inl e, c2)
                 | (Inr _, c2) \<Rightarrow> (Inr True, c2))))"

subsection \<open>record_transaction\<close>

text \<open>
  The block under \<open>if affects_inventory != 0\<close>: read the row of the pair, then update
  it or insert one. It works on the pending state of the connection.
\<close>

definition update_levels ::
  "env \<Rightarrow> connection \<Rightarrow> InventoryTransaction \<Rightarrow> int \<Rightarrow> error + connection" where
  "update_levels ev c tx affects_inventory =
     (let inventory_change = quantity tx * affects_inventory in
      if Select_Inventory \<in> faults ev then Inl (DatabaseError Select_Inventory)
      else (case sql_select_inventory (product_id tx) (location_id tx) (working c) of
              Some inventory_record \<Rightarrow>
                (let new_quantity = i_quantity inventory_record + inventory_change in
                 if Update_Inventory \<in> faults ev then Inl (DatabaseError Update_Inventory)
                 else Inr (c\<lparr>working := sql_update_inventory (current_timestamp ev) new_quantity
                                          (product_id tx) (location_id tx) (working c)\<rparr>))
            | None \<Rightarrow>
                (if Insert_Inventory \<in> faults ev then Inl (DatabaseError Insert_Inventory)
                 else Inr (c\<lparr>working := sql_insert_inventory (updated_at_default ev)
                                          (product_id tx) (location_id tx) inventory_change
                                          (working c)\<rparr>))))"

text \<open>
  What that block makes of the tables when none of its statements is refused (and the
  tables themselves when the effect is 0 and the block is skipped).
\<close>

definition levels_after :: "env \<Rightarrow> InventoryTransaction \<Rightarrow> int \<Rightarrow> tables \<Rightarrow> tables" where
  "levels_after ev tx a T =
     (if a \<noteq> 0
      then (case sql_select_inventory (product_id tx) (location_id tx) T of
              Some inventory_record \<Rightarrow>
                sql_update_inventory (current_timestamp ev)
                  (i_quantity inventory_record + quantity tx * a)
                  (product_id tx) (location_id tx) T
            | None \<Rightarrow>
                sql_insert_inventory (updated_at_default ev) (product_id tx) (location_id tx)
                  (quantity tx * a) T)
      else T)"

text \<open>
  The body of the \<open>try\<close>. It returns the outcome, the connection as the exception (or
  the commit) leaves it, and the caller's transaction object, which the body mutates
  when it has no date.
\<close>

definition record_transaction_try ::
  "env \<Rightarrow> connection \<Rightarrow> InventoryTransaction \<Rightarrow>
     (error + int) \<times> connection \<times> InventoryTransaction" where
  "record_transaction_try ev c tx =
     (if Begin_Transaction \<in> faults ev then (Inl (DatabaseError Begin_Transaction), c, tx)
      else if Select_Transaction_Type \<in> faults ev
      then (Inl (DatabaseError Select_Transaction_Type), c, tx)
      else (case sql_select_affects (transaction_type_id tx) (working c) of
              None \<Rightarrow> (Inl (ValueError (transaction_type_id tx)), c, tx)
            | Some result \<Rightarrow>
                (let affects_inventory = tt_affects_inventory result;
                     tx1 = (if transaction_date tx = None
                            then tx\<lparr>transaction_date := Some (now ev)\<rparr> else tx)
                 in if Insert_Transaction \<in> faults ev
                    then (Inl (DatabaseError Insert_Transaction), c, tx1)
                    else (case sql_insert_transaction (the (transaction_date tx1)) tx1 (working c) of
                            (w, new_id) \<Rightarrow>
                              (let c1 = c\<lparr>working := w\<rparr> in
                               case (if affects_inventory \<noteq> 0
                                     then update_levels ev c1 tx1 affects_inventory
                                     else Inr c1) of
                                 Inl e \<Rightarrow> (Inl e, c1, tx1)
                               | Inr c2 \<Rightarrow>
                                   (if Commit \<in> faults ev
                                    then (Inl (DatabaseError Commit), c2, tx1)
                                    else (Inr new_id, commit c2, tx1)))))))"

text \<open>The \<open>except\<close> clause: roll back and raise again.\<close>

definition record_transaction ::
  "env \<Rightarrow> connection \<Rightarrow> InventoryTransaction \<Rightarrow>
     (error + int) \<times> connection \<times> InventoryTransaction" where
  "record_transaction ev c tx =
     (case record_transaction_try ev c tx of
        (Inl e, c', tx') \<Rightarrow> (Inl e, rollback c', tx')
      | (Inr new_id, c', tx') \<Rightarrow> (Inr new_id, c', tx'))"

subsection \<open>get_transaction_history\<close>

text \<open>
  The optional filters, each \<open>AND\<close>ed onto \<open>WHERE 1=1\<close> only when its argument is not
  \<open>None\<close>. Dates are text and compare as SQLite compares text, byte by byte.
\<close>

definition history_filter ::
  "int option \<Rightarrow> int option \<Rightarrow> string option \<Rightarrow> string option \<Rightarrow> ledger_row \<Rightarrow> bool" where
  "history_filter pid lid start_date end_date t =
     ((case pid of None \<Rightarrow> True | Some v \<Rightarrow> t_product_id t = v) \<and>
      (case lid of None \<Rightarrow> True | Some v \<Rightarrow> t_location_id t = v) \<and>
      (case start_date of None \<Rightarrow> True | Some d \<Rightarrow> d \<le> t_transaction_date t) \<and>
      (case end_date of None \<Rightarrow> True | Some d \<Rightarrow> t_transaction_date t \<le> d))"

text \<open>
  \<open>FROM inventory_transactions t JOIN products p ON ... JOIN locations l ON ...
  JOIN transaction_types tt ON ...\<close>: inner joins, so an entry appears once for every
  combination of product, location and type rows that carry its ids.
\<close>

definition history_join :: "tables \<Rightarrow> history_row list" where
  "history_join T =
     [\<lparr>h_entry = t, h_product_name = p_name p, h_sku = p_sku p,
       h_location_name = l_name l, h_transaction_type = tt_name tt\<rparr>.
        t \<leftarrow> inventory_transactions T,
        p \<leftarrow> products T, t_product_id t = p_product_id p,
        l \<leftarrow> locations T, t_location_id t = l_location_id l,
        tt \<leftarrow> transaction_types T, t_transaction_type_id t = tt_transaction_type_id tt]"

text \<open>
  \<open>ORDER BY t.transaction_date DESC\<close>. SQLite leaves the order of rows with equal dates
  open; this is one such order.
\<close>

definition order_by_date_desc :: "history_row list \<Rightarrow> history_row list" where
  "order_by_date_desc rows = rev (sort_key (\<lambda>h. t_transaction_date (h_entry h)) rows)"

text \<open>\<open>LIMIT n\<close>: in SQLite a negative \<open>n\<close> puts no upper bound on the number of rows.\<close>

definition sql_limit :: "int \<Rightarrow> 'a list \<Rightarrow> 'a list" where
  "sql_limit n rows = (if n < 0 then rows else take (nat n) rows)"

definition sql_select_history ::
  "int option \<Rightarrow> int option \<Rightarrow> string option \<Rightarrow> string option \<Rightarrow> int \<Rightarrow> tables \<Rightarrow>
     history_row list" where
  "sql_select_history pid lid start_date end_date limit T =
     sql_limit limit
       (order_by_date_desc
          (filter (\<lambda>h. history_filter pid lid start_date end_date (h_entry h)) (history_join T)))"

text \<open>The last argument is \<open>None\<close> when the caller leaves \<open>limit\<close> to its default, 100.\<close>

definition get_transaction_history ::
  "env \<Rightarrow> connection \<Rightarrow> int option \<Rightarrow> int option \<Rightarrow> string option \<Rightarrow> string option \<Rightarrow>
     int option \<Rightarrow> (error + history_row list) \<times> connection" where
  "get_transaction_history ev c pid lid start_date end_date limit_opt =
     (let limit = (case limit_opt of None \<Rightarrow> 100 | Some n \<Rightarrow> n) in
      execute_query ev c Select_History (sql_select_history pid lid start_date end_date limit))"

section \<open>Notions of the specification\<close>

text \<open>
  A sequence of \<open>record_transaction\<close> calls on the one connection, each with its own
  environment and candidate; the outcomes are collected in order.
\<close>

fun replay ::
  "connection \<Rightarrow> (env \<times> InventoryTransaction) list \<Rightarrow> (error + int) list \<times> connection" where
  "replay c [] = ([], c)"
| "replay c ((ev, tx) # calls) =
     (case record_transaction ev c tx of
        (r, c', tx') \<Rightarrow> (case replay c' calls of (rs, c'') \<Rightarrow> (r # rs, c'')))"

text \<open>
  The registry's contract \<open>effect_of\<close>: the \<open>affects_inventory\<close> of a type id (0 for an
  id the registry does not hold, which no successful call carries).
\<close>

definition effect_of :: "tables \<Rightarrow> int \<Rightarrow> int" where
  "effect_of T tid =
     (case sql_select_affects tid T of None \<Rightarrow> 0 | Some r \<Rightarrow> tt_affects_inventory r)"

text \<open>
  The fold of the specification over the calls that touch a pair: the sum of
  \<open>quantity * affects_inventory\<close>.
\<close>

definition ledger_fold ::
  "tables \<Rightarrow> int \<Rightarrow> int \<Rightarrow> (env \<times> InventoryTransaction) list \<Rightarrow> int" where
  "ledger_fold T pid lid calls =
     sum_list (map (\<lambda>call. quantity (snd call) * effect_of T (transaction_type_id (snd call)))
                   (filter (\<lambda>call. product_id (snd call) = pid \<and> location_id (snd call) = lid)
                      calls))"

text \<open>
  The StockLevel quantity of a pair as the tables hold it: that of the row a lookup of
  the pair finds, 0 without one.
\<close>

definition stock_level :: "tables \<Rightarrow> int \<Rightarrow> int \<Rightarrow> int" where
  "stock_level T pid lid =
     (case find (at_pair pid lid) (inventory T) of None \<Rightarrow> 0 | Some r \<Rightarrow> i_quantity r)"

text \<open>A StockLevel row is unique per pair: at most one row of the table carries it.\<close>

definition pair_unique :: "inventory_row list \<Rightarrow> int \<Rightarrow> int \<Rightarrow> bool" where
  "pair_unique rows pid lid = (length (filter (at_pair pid lid) rows) \<le> 1)"


text \<open>The ledger entries that pass the filters of a history query.\<close>

definition matching_entries ::
  "int option \<Rightarrow> int option \<Rightarrow> string option \<Rightarrow> string option \<Rightarrow> tables \<Rightarrow> ledger_row list" where
  "matching_entries pid lid start_date end_date T =
     filter (history_filter pid lid start_date end_date) (inventory_transactions T)"

text \<open>Rows in descending order of transaction date.\<close>

definition newest_first :: "history_row list \<Rightarrow> bool" where
  "newest_first rows =
     sorted_wrt (\<lambda>a b. t_transaction_date (h_entry b) \<le> t_transaction_date (h_entry a)) rows"

text \<open>
  Referential integrity of the ledger, which the specification leaves to the storage
  layer: every entry's product, location and type id names exactly one row.
\<close>

definition references_resolve :: "tables \<Rightarrow> ledger_row \<Rightarrow> bool" where
  "references_resolve T t =
     (length (filter (\<lambda>p. t_product_id t = p_product_id p) (products T)) = 1 \<and>
      length (filter (\<lambda>l. t_location_id t = l_location_id l) (locations T)) = 1 \<and>
      length (filter (\<lambda>tt. t_transaction_type_id t = tt_transaction_type_id tt)
                (transaction_types T)) = 1)"

definition referential_integrity :: "tables \<Rightarrow> bool" where
  "referential_integrity T = list_all (references_resolve T) (inventory_transactions T)"

section \<open>An example store\<close>

text \<open>
  The constructor call \<open>InventoryTransaction(product_id, location_id, transaction_type_id,
  quantity)\<close> with every other field at its default \<open>None\<close>.
\<close>

definition new_transaction :: "int \<Rightarrow> int \<Rightarrow> int \<Rightarrow> int \<Rightarrow> InventoryTransaction" where
  "new_transaction pid lid tid qty =
     \<lparr>product_id = pid, location_id = lid, transaction_type_id = tid, quantity = qty,
      reference_number = None, notes = None, created_by = None, transaction_id = None,
      transaction_date = None\<rparr>"

text \<open>
  The store of \<open>demo_inventory_system\<close> before its first transaction: the two products and
  two locations of the demo and the eight transaction types the command-line client
  lists, with an empty ledger and no stock levels. The effects are the directions the
  client prints (Increase, Decrease); it prints none for Adjustment, which has the 0 of
  the specification.
\<close>

definition demo_tables :: tables where
  "demo_tables =
     \<lparr>transaction_types =
        [\<lparr>tt_transaction_type_id = 1, tt_name = ''Purchase'', tt_affects_inventory = 1\<rparr>,
         \<lparr>tt_transaction_type_id = 2, tt_name = ''Sale'', tt_affects_inventory = - 1\<rparr>,
         \<lparr>tt_transaction_type_id = 3, tt_name = ''Adjustment'', tt_affects_inventory = 0\<rparr>,
         \<lparr>tt_transaction_type_id = 4, tt_name = ''Transfer In'', tt_affects_inventory = 1\<rparr>,
         \<lparr>tt_transaction_type_id = 5, tt_name = ''Transfer Out'', tt_affects_inventory = - 1\<rparr>,
         \<lparr>tt_transaction_type_id = 6, tt_name = ''Return In'', tt_affects_inventory = 1\<rparr>,
         \<lparr>tt_transaction_type_id = 7, tt_name = ''Return Out'', tt_affects_inventory = - 1\<rparr>,
         \<lparr>tt_transaction_type_id = 8, tt_name = ''Write Off'', tt_affects_inventory = - 1\<rparr>],
      products =
        [\<lparr>p_product_id = 1, p_name = ''Laptop Computer'', p_sku = ''TECH-001''\<rparr>,
         \<lparr>p_product_id = 2, p_name = ''Printer Paper'', p_sku = ''OFF-001''\<rparr>],
      locations =
        [\<lparr>l_location_id = 1, l_name = ''Main Warehouse''\<rparr>,
         \<lparr>l_location_id = 2, l_name = ''Retail Store''\<rparr>],
      inventory_transactions = [],
      inventory = []\<rparr>"

definition demo_db :: connection where
  "demo_db = \<lparr>durable = demo_tables, working = demo_tables\<rparr>"

definition demo_env :: "stmt set \<Rightarrow> env" where
  "demo_env fs =
     \<lparr>now = ''2024-01-15 10:30:00'', current_timestamp = ''2024-01-15 15:30:00'',
      updated_at_default = Some ''2024-01-15 15:30:00'', faults = fs\<rparr>"

text \<open>A purchase and a larger sale of the laptop at the warehouse, with a transfer to the store between them.\<close>

definition demo_calls :: "(env \<times> InventoryTransaction) list" where
  "demo_calls =
     [(demo_env {}, new_transaction 1 1 1 10),
      (demo_env {}, new_transaction 1 2 4 5),
      (demo_env {}, new_transaction 1 1 2 13)]"

text \<open>The example store after a purchase of 5 laptops at the warehouse and a sale of the 5.\<close>

definition zero_stock_db :: connection where
  "zero_stock_db =
     snd (replay demo_db
            [(demo_env {}, new_transaction 1 1 1 5), (demo_env {}, new_transaction 1 1 2 5)])"

text \<open>The example store after three dated transactions, recorded out of date order.\<close>

definition history_db :: connection where
  "history_db =
     snd (replay demo_db
            [(demo_env {}, (new_transaction 1 1 1 10)\<lparr>transaction_date := Some ''2024-01-10 09:00:00''\<rparr>),
             (demo_env {}, (new_transaction 1 1 5 3)\<lparr>transaction_date := Some ''2024-01-12 14:00:00''\<rparr>),
             (demo_env {}, (new_transaction 1 2 4 3)\<lparr>transaction_date := Some ''2024-01-11 08:00:00''\<rparr>)])"


section \<open>Auxiliary facts\<close>

lemmas demo_defs = new_transaction_def demo_tables_def demo_db_def demo_env_def
lemmas model_defs = record_transaction_def record_transaction_try_def update_levels_def
    sql_insert_transaction_def sql_select_affects_def sql_select_inventory_def
    sql_update_inventory_def sql_insert_inventory_def new_ledger_row_def next_rowid_def
    rollback_def commit_def at_pair_def Let_def

lemma find_filter: "find P xs = (case filter P xs of [] \<Rightarrow> None | x # _ \<Rightarrow> Some x)"
  by (induction xs) auto

lemma get_product_quantity_stock_level:
  "Select_Quantity \<notin> faults ev \<Longrightarrow>
     get_product_quantity ev c pid lid = (Inr (stock_level (working c) pid lid), c)"
  unfolding get_product_quantity_def execute_query_def sql_select_quantity_def stock_level_def
  by (simp add: find_filter split: list.splits)

lemma update_levels_Inr:
  "update_levels ev c tx a = Inr c2 \<Longrightarrow> a \<noteq> 0 \<Longrightarrow>
     c2 = c\<lparr>working := levels_after ev tx a (working c)\<rparr>"
  unfolding update_levels_def levels_after_def Let_def
  by (auto split: if_splits option.splits)

lemma try_success:
  assumes "record_transaction_try ev c tx = (Inr n, c', tx')"
  shows "\<exists>r. sql_select_affects (transaction_type_id tx) (working c) = Some r \<and>
     tx' = (if transaction_date tx = None then tx\<lparr>transaction_date := Some (now ev)\<rparr> else tx) \<and>
     n = snd (sql_insert_transaction (the (transaction_date tx')) tx' (working c)) \<and>
     durable c' = working c' \<and>
     working c' =
       levels_after ev tx' (tt_affects_inventory r)
         (fst (sql_insert_transaction (the (transaction_date tx')) tx' (working c)))"
proof -
  from assms have b: "Begin_Transaction \<notin> faults ev" "Select_Transaction_Type \<notin> faults ev"
    by (auto simp: record_transaction_try_def split: if_splits)
  from assms b obtain r where r: "sql_select_affects (transaction_type_id tx) (working c) = Some r"
    by (cases "sql_select_affects (transaction_type_id tx) (working c)")
       (auto simp: record_transaction_try_def)
  define tx1 where "tx1 = (if transaction_date tx = None then tx\<lparr>transaction_date := Some (now ev)\<rparr> else tx)"
  define w where "w = fst (sql_insert_transaction (the (transaction_date tx1)) tx1 (working c))"
  define k where "k = snd (sql_insert_transaction (the (transaction_date tx1)) tx1 (working c))"
  define c1 where "c1 = c\<lparr>working := w\<rparr>"
  define a where "a = tt_affects_inventory r"
  define u where "u = (if a \<noteq> 0 then update_levels ev c1 tx1 a else Inr c1)"
  have unf: "record_transaction_try ev c tx =
     (if Insert_Transaction \<in> faults ev then (Inl (DatabaseError Insert_Transaction), c, tx1)
      else (case u of Inl e \<Rightarrow> (Inl e, c1, tx1)
            | Inr c2 \<Rightarrow> (if Commit \<in> faults ev then (Inl (DatabaseError Commit), c2, tx1)
                          else (Inr k, commit c2, tx1))))"
    unfolding record_transaction_try_def Let_def tx1_def w_def k_def c1_def a_def u_def
      case_prod_beta
    using b r by simp
  from assms unf obtain c2 where u2: "u = Inr c2" and res: "n = k" "c' = commit c2" "tx' = tx1"
    by (cases u) (auto split: if_splits)
  have "c2 = c1\<lparr>working := levels_after ev tx1 a (working c1)\<rparr>"
  proof (cases "a = 0")
    case True
    with u2 show ?thesis by (simp add: u_def levels_after_def)
  next
    case False
    with u2 show ?thesis by (auto simp: u_def dest: update_levels_Inr)
  qed
  with res r show ?thesis
    by (simp add: commit_def c1_def w_def k_def a_def tx1_def)
qed

lemma find_append_one:
  "find P (xs @ [y]) = (case find P xs of Some x \<Rightarrow> Some x | None \<Rightarrow> if P y then Some y else None)"
  by (induction xs) auto

lemma find_Some_holds: "find P xs = Some x \<Longrightarrow> P x"
  by (induction xs) (auto split: if_splits)

lemma find_map_keeping:
  assumes "\<And>x. P (f x) = P x"
  shows "find P (map f xs) = map_option f (find P xs)"
  using assms by (induction xs) auto

lemma stock_level_insert_transaction:
  "stock_level (fst (sql_insert_transaction d tx T)) pid lid = stock_level T pid lid"
  by (simp add: stock_level_def sql_insert_transaction_def Let_def)

lemma stock_level_update_inventory:
  "stock_level (sql_update_inventory ts nq p l T) pid lid =
     (if pid = p \<and> lid = l \<and> find (at_pair p l) (inventory T) \<noteq> None then nq
      else stock_level T pid lid)"
proof -
  let ?f = "\<lambda>i. if at_pair p l i then i\<lparr>i_quantity := nq, i_updated_at := Some ts\<rparr> else i"
  have "find (at_pair pid lid) (map ?f (inventory T)) = map_option ?f (find (at_pair pid lid) (inventory T))"
    by (rule find_map_keeping) (simp add: at_pair_def)
  then have m: "stock_level (sql_update_inventory ts nq p l T) pid lid =
      (case find (at_pair pid lid) (inventory T) of None \<Rightarrow> 0
       | Some r \<Rightarrow> if at_pair p l r then nq else i_quantity r)"
    by (simp add: stock_level_def sql_update_inventory_def split: option.splits)
  show ?thesis
  proof (cases "find (at_pair pid lid) (inventory T)")
    case None
    with m show ?thesis by (auto simp: stock_level_def)
  next
    case (Some r)
    then have "at_pair pid lid r" by (rule find_Some_holds)
    with m Some show ?thesis by (auto simp: stock_level_def at_pair_def)
  qed
qed

lemma stock_level_insert_inventory:
  "find (at_pair p l) (inventory T) = None \<Longrightarrow>
   stock_level (sql_insert_inventory dflt p l q T) pid lid =
     (if pid = p \<and> lid = l then q else stock_level T pid lid)"
  by (auto simp: stock_level_def sql_insert_inventory_def find_append_one at_pair_def
        split: option.splits)

lemma stock_level_levels_after:
  "stock_level (levels_after ev tx a T) pid lid =
     stock_level T pid lid +
       (if pid = product_id tx \<and> lid = location_id tx then quantity tx * a else 0)"
proof (cases "a = 0")
  case True
  then show ?thesis by (simp add: levels_after_def)
next
  case False
  show ?thesis
  proof (cases "find (at_pair (product_id tx) (location_id tx)) (inventory T)")
    case None
    with False show ?thesis
      by (simp add: levels_after_def sql_select_inventory_def stock_level_insert_inventory)
         (simp add: stock_level_def)
  next
    case (Some r)
    with False show ?thesis
      by (simp add: levels_after_def sql_select_inventory_def stock_level_update_inventory)
         (simp add: stock_level_def)
  qed
qed

lemma insert_transaction_registry:
  "transaction_types (fst (sql_insert_transaction d tx T)) = transaction_types T"
  by (simp add: sql_insert_transaction_def Let_def)

lemma levels_after_registry:
  "transaction_types (levels_after ev tx a T) = transaction_types T"
  by (simp add: levels_after_def sql_update_inventory_def sql_insert_inventory_def
        split: option.splits)

lemma record_transaction_Inr_try:
  "record_transaction ev c tx = (Inr n, c', tx') \<Longrightarrow>
     record_transaction_try ev c tx = (Inr n, c', tx')"
  by (auto simp: record_transaction_def split: prod.splits sum.splits)

lemma record_transaction_step:
  assumes "record_transaction ev c tx = (Inr n, c', tx')"
  shows "stock_level (working c') pid lid =
           stock_level (working c) pid lid +
             (if pid = product_id tx \<and> lid = location_id tx
              then quantity tx * effect_of (working c) (transaction_type_id tx) else 0)"
    and "transaction_types (working c') = transaction_types (working c)"
proof -
  from try_success [OF record_transaction_Inr_try [OF assms]]
  obtain r where r: "sql_select_affects (transaction_type_id tx) (working c) = Some r"
    and tx': "tx' = (if transaction_date tx = None then tx\<lparr>transaction_date := Some (now ev)\<rparr> else tx)"
    and w: "working c' = levels_after ev tx' (tt_affects_inventory r)
         (fst (sql_insert_transaction (the (transaction_date tx')) tx' (working c)))"
    by blast
  from tx' have same: "product_id tx' = product_id tx" "location_id tx' = location_id tx"
      "quantity tx' = quantity tx"
    by auto
  from r have e: "effect_of (working c) (transaction_type_id tx) = tt_affects_inventory r"
    by (simp add: effect_of_def)
  show "stock_level (working c') pid lid =
           stock_level (working c) pid lid +
             (if pid = product_id tx \<and> lid = location_id tx
              then quantity tx * effect_of (working c) (transaction_type_id tx) else 0)"
    by (simp only: w stock_level_levels_after stock_level_insert_transaction same e)
  show "transaction_types (working c') = transaction_types (working c)"
    by (simp only: w levels_after_registry insert_transaction_registry)
qed

section \<open>Reading a stock level\<close>

text \<open>
  Claim C7. \<open>get_product_quantity\<close> never changes the connection. When its SELECT is not
  refused, it returns 0 if no \<open>inventory\<close> row carries the pair, and otherwise the quantity
  of the row for the pair (of the first one, should the table hold several).
\<close>

theorem get_product_quantity_reads:
  "snd (get_product_quantity ev c pid lid) = c \<and>
   (Select_Quantity \<notin> faults ev \<longrightarrow>
      (filter (at_pair pid lid) (inventory (working c)) = [] \<longrightarrow>
         fst (get_product_quantity ev c pid lid) = Inr 0) \<and>
      (\<forall>r rs. filter (at_pair pid lid) (inventory (working c)) = r # rs \<longrightarrow>
         fst (get_product_quantity ev c pid lid) = Inr (i_quantity r)))"
  unfolding get_product_quantity_def execute_query_def sql_select_quantity_def
  by simp

theorem get_product_quantity_reads_witness:
  "snd (get_product_quantity (demo_env {}) demo_db 1 1) = demo_db \<and>
   fst (get_product_quantity (demo_env {}) demo_db 1 1) = Inr 0 \<and>
   fst (get_product_quantity (demo_env {})
          (fst (snd (record_transaction (demo_env {}) demo_db (new_transaction 1 1 2 3)))) 1 1) =
     Inr (- 3)"
proof -
  let ?c = "fst (snd (record_transaction (demo_env {}) demo_db (new_transaction 1 1 2 3)))"
  have f: "Select_Quantity \<notin> faults (demo_env {})" by (simp add: demo_env_def)
  have e: "filter (at_pair 1 1) (inventory (working demo_db)) = []"
    by (simp add: demo_defs)
  have n: "filter (at_pair 1 1) (inventory (working ?c)) =
      [\<lparr>i_inventory_id = 1, i_product_id = 1, i_location_id = 1, i_quantity = - 3,
        i_last_counted_at = None, i_updated_at = Some ''2024-01-15 15:30:00''\<rparr>]"
    by (simp add: model_defs demo_defs)
  from get_product_quantity_reads [of "demo_env {}" demo_db 1 1] f e
  have a: "snd (get_product_quantity (demo_env {}) demo_db 1 1) = demo_db \<and>
           fst (get_product_quantity (demo_env {}) demo_db 1 1) = Inr 0"
    by simp
  from get_product_quantity_reads [of "demo_env {}" ?c 1 1] f n
  have b: "fst (get_product_quantity (demo_env {}) ?c 1 1) = Inr (- 3)"
    by simp
  from a b show ?thesis by simp
qed

section \<open>Failure of record_transaction\<close>

lemma try_keeps_durable:
  "record_transaction_try ev c tx = (Inl e, c', tx') \<Longrightarrow> durable c' = durable c"
  unfolding record_transaction_try_def update_levels_def sql_insert_transaction_def Let_def
  by (auto split: if_splits option.splits sum.splits prod.splits)


text \<open>
  Claim C2. Whenever \<open>record_transaction\<close> raises, whatever the step that failed, the
  caller gets no transaction id, and the connection holds what was committed before the
  call and nothing pending: the ledger insert and the stock-level write are both rolled
  back. On a connection that had nothing pending, the state is exactly the state before
  the call.
\<close>

theorem record_transaction_rollback:
  assumes "fst (record_transaction ev c tx) = Inl e"
  shows "durable (fst (snd (record_transaction ev c tx))) = durable c \<and>
         working (fst (snd (record_transaction ev c tx))) = durable c \<and>
         (working c = durable c \<longrightarrow> fst (snd (record_transaction ev c tx)) = c)"
proof -
  obtain r c1 tx1 where t: "record_transaction_try ev c tx = (r, c1, tx1)"
    by (cases "record_transaction_try ev c tx") auto
  with assms have r: "r = Inl e"
    by (auto simp: record_transaction_def split: sum.splits)
  from t r have d: "durable c1 = durable c" by (auto dest: try_keeps_durable)
  from t r have out: "fst (snd (record_transaction ev c tx)) = rollback c1"
    by (simp add: record_transaction_def)
  from d out show ?thesis by (simp add: rollback_def)
qed

theorem record_transaction_rollback_witness:
  "fst (record_transaction (demo_env {Commit}) demo_db (new_transaction 1 1 1 10)) =
     Inl (DatabaseError Commit) \<and>
   inventory_transactions (working (fst (snd (record_transaction_try (demo_env {Commit}) demo_db
      (new_transaction 1 1 1 10))))) \<noteq> [] \<and>
   fst (snd (record_transaction (demo_env {Commit}) demo_db (new_transaction 1 1 1 10))) = demo_db"
proof -
  have h: "fst (record_transaction (demo_env {Commit}) demo_db (new_transaction 1 1 1 10)) =
     Inl (DatabaseError Commit)"
    by (simp add: model_defs demo_defs)
  have p: "inventory_transactions (working (fst (snd (record_transaction_try (demo_env {Commit}) demo_db
      (new_transaction 1 1 1 10))))) \<noteq> []"
    by (simp add: model_defs demo_defs)
  have q: "working demo_db = durable demo_db" by (simp add: demo_db_def)
  from record_transaction_rollback [OF h] q h p show ?thesis by simp
qed


text \<open>
  Claim C3. For a candidate whose \<open>transaction_type_id\<close> is no id of the registry,
  \<open>record_transaction\<close> raises, nothing is written (committed and pending state are what
  was committed before, and a connection with nothing pending is unchanged), and the
  caller's object is untouched. The exception is the \<open>ValueError\<close> for the invalid type,
  provided the storage layer did not already refuse \<open>BEGIN\<close> or the registry read.
\<close>

theorem record_transaction_invalid_type:
  assumes "transaction_type_id tx \<notin> tt_transaction_type_id ` set (transaction_types (working c))"
  shows "isl (fst (record_transaction ev c tx)) \<and>
         durable (fst (snd (record_transaction ev c tx))) = durable c \<and>
         working (fst (snd (record_transaction ev c tx))) = durable c \<and>
         (working c = durable c \<longrightarrow> fst (snd (record_transaction ev c tx)) = c) \<and>
         snd (snd (record_transaction ev c tx)) = tx \<and>
         (Begin_Transaction \<notin> faults ev \<and> Select_Transaction_Type \<notin> faults ev \<longrightarrow>
            fst (record_transaction ev c tx) = Inl (ValueError (transaction_type_id tx)))"
proof -
  from assms have none: "sql_select_affects (transaction_type_id tx) (working c) = None"
    by (force simp: sql_select_affects_def find_None_iff)
  define err where "err =
    (if Begin_Transaction \<in> faults ev then DatabaseError Begin_Transaction
     else if Select_Transaction_Type \<in> faults ev then DatabaseError Select_Transaction_Type
     else ValueError (transaction_type_id tx))"
  from none have "record_transaction ev c tx = (Inl err, rollback c, tx)"
    by (simp add: record_transaction_def record_transaction_try_def err_def)
  then show ?thesis
    by (auto simp: rollback_def err_def)
qed

theorem record_transaction_invalid_type_witness:
  "99 \<notin> tt_transaction_type_id ` set (transaction_types (working demo_db)) \<and>
   record_transaction (demo_env {}) demo_db (new_transaction 1 1 99 10) =
     (Inl (ValueError 99), demo_db, new_transaction 1 1 99 10)"
proof -
  have h: "transaction_type_id (new_transaction 1 1 99 10) \<notin>
      tt_transaction_type_id ` set (transaction_types (working demo_db))"
    by (simp add: demo_defs)
  have q: "working demo_db = durable demo_db" by (simp add: demo_db_def)
  have f: "Begin_Transaction \<notin> faults (demo_env {}) \<and> Select_Transaction_Type \<notin> faults (demo_env {})"
    by (simp add: demo_env_def)
  have t: "transaction_type_id (new_transaction 1 1 99 10) = 99" by (simp add: new_transaction_def)
  from record_transaction_invalid_type [OF h, of "demo_env {}"] q f t h show ?thesis
    by (simp add: prod_eq_iff)
qed

section \<open>The stock level as a fold of the calls\<close>

lemma effect_of_registry:
  "transaction_types T' = transaction_types T \<Longrightarrow> effect_of T' = effect_of T"
  by (simp add: effect_of_def sql_select_affects_def fun_eq_iff)

lemma ledger_fold_registry:
  "transaction_types T' = transaction_types T \<Longrightarrow>
     ledger_fold T' pid lid calls = ledger_fold T pid lid calls"
  using effect_of_registry [of T' T] by (simp add: ledger_fold_def)

lemma ledger_fold_Cons:
  "ledger_fold T pid lid ((ev, tx) # calls) =
     (if pid = product_id tx \<and> lid = location_id tx
      then quantity tx * effect_of T (transaction_type_id tx) else 0) +
     ledger_fold T pid lid calls"
  by (auto simp: ledger_fold_def)

lemma replay_stock_level:
  "list_all (\<lambda>r. \<not> isl r) (fst (replay c calls)) \<Longrightarrow>
     stock_level (working (snd (replay c calls))) pid lid =
       stock_level (working c) pid lid + ledger_fold (working c) pid lid calls"
proof (induction calls arbitrary: c)
  case Nil
  show ?case by (simp add: ledger_fold_def)
next
  case (Cons call calls)
  obtain ev tx where call: "call = (ev, tx)" by (cases call)
  obtain r c' tx' where rt: "record_transaction ev c tx = (r, c', tx')"
    by (cases "record_transaction ev c tx")
  obtain rs c'' where rp: "replay c' calls = (rs, c'')" by (cases "replay c' calls")
  from Cons.prems call rt rp have ok: "\<not> isl r" and rest: "list_all (\<lambda>r. \<not> isl r) (fst (replay c' calls))"
    by auto
  from ok obtain n where "r = Inr n" by (cases r) auto
  with rt have rt': "record_transaction ev c tx = (Inr n, c', tx')" by simp
  note step = record_transaction_step [OF rt']
  from Cons.IH [OF rest]
  have "stock_level (working (snd (replay c' calls))) pid lid =
      stock_level (working c') pid lid + ledger_fold (working c') pid lid calls" .
  also have "ledger_fold (working c') pid lid calls = ledger_fold (working c) pid lid calls"
    by (rule ledger_fold_registry) (rule step(2))
  finally show ?case
    using call rt rp step(1) [of pid lid] by (simp add: ledger_fold_Cons)
qed

text \<open>
  Claim C1. Run any sequence of \<open>record_transaction\<close> calls, all of them successful, on a
  store without stock levels. Afterwards \<open>get_product_quantity\<close> for a pair returns the
  sum, over the calls that carry the pair, of \<open>quantity * affects_inventory\<close> of the call's
  type. Nothing bounds the sum below: the witness ends at -3.
\<close>

theorem replay_quantity_is_fold:
  assumes "inventory (working c) = []"
    and "list_all (\<lambda>r. \<not> isl r) (fst (replay c calls))"
    and "Select_Quantity \<notin> faults ev"
  shows "fst (get_product_quantity ev (snd (replay c calls)) pid lid) =
           Inr (ledger_fold (working c) pid lid calls)"
proof -
  from assms(1) have "stock_level (working c) pid lid = 0" by (simp add: stock_level_def)
  with replay_stock_level [OF assms(2), of pid lid] assms(3) show ?thesis
    by (simp add: get_product_quantity_stock_level)
qed


theorem replay_quantity_is_fold_witness:
  "inventory (working demo_db) = [] \<and>
   list_all (\<lambda>r. \<not> isl r) (fst (replay demo_db demo_calls)) \<and>
   fst (get_product_quantity (demo_env {}) (snd (replay demo_db demo_calls)) 1 1) = Inr (- 3)"
proof -
  have e: "inventory (working demo_db) = []" by (simp add: demo_defs)
  have ok: "list_all (\<lambda>r. \<not> isl r) (fst (replay demo_db demo_calls))"
    by (simp add: demo_calls_def model_defs demo_defs)
  have f: "Select_Quantity \<notin> faults (demo_env {})" by (simp add: demo_env_def)
  have v: "ledger_fold (working demo_db) 1 1 demo_calls = - 3"
    by (simp add: ledger_fold_def effect_of_def sql_select_affects_def demo_calls_def demo_defs)
  from replay_quantity_is_fold [OF e ok f, of 1 1] e ok v show ?thesis by simp
qed

text \<open>
  Claim C9. Let the registry give the type \<open>t_out\<close> the effect -1 and the type \<open>t_in\<close> the
  effect +1. After a successful transaction of type \<open>t_out\<close> for \<open>q\<close> units of product \<open>P\<close>
  at location \<open>A\<close>, followed by a successful one of type \<open>t_in\<close> for \<open>q\<close> units of \<open>P\<close> at
  \<open>B\<close>, the quantities \<open>get_product_quantity\<close> returns for \<open>(P, A)\<close> and \<open>(P, B)\<close> add up to
  what they added up to before.
\<close>

theorem transfer_conserves_total:
  assumes "effect_of (working c) t_out = - 1"
    and "effect_of (working c) t_in = 1"
    and "product_id tx_out = P" "location_id tx_out = A"
        "transaction_type_id tx_out = t_out" "quantity tx_out = q"
    and "product_id tx_in = P" "location_id tx_in = B"
        "transaction_type_id tx_in = t_in" "quantity tx_in = q"
    and "record_transaction ev1 c tx_out = (Inr n1, c1, tx1)"
    and "record_transaction ev2 c1 tx_in = (Inr n2, c2, tx2)"
    and "Select_Quantity \<notin> faults ev"
  shows "\<exists>a b a' b'.
           fst (get_product_quantity ev c P A) = Inr a \<and>
           fst (get_product_quantity ev c P B) = Inr b \<and>
           fst (get_product_quantity ev c2 P A) = Inr a' \<and>
           fst (get_product_quantity ev c2 P B) = Inr b' \<and>
           a' + b' = a + b"
proof -
  note s1 = record_transaction_step [OF assms(11)]
  note s2 = record_transaction_step [OF assms(12)]
  have e2: "effect_of (working c1) t_in = 1"
    using effect_of_registry [OF s1(2)] assms(2) by simp
  have A: "stock_level (working c2) P A =
      stock_level (working c) P A - q + (if A = B then q else 0)"
    using s1(1) [of P A] s2(1) [of P A] assms(1,3-10) e2 by auto
  have B: "stock_level (working c2) P B =
      stock_level (working c) P B + q - (if A = B then q else 0)"
    using s1(1) [of P B] s2(1) [of P B] assms(1,3-10) e2 by auto
  from A B have "stock_level (working c2) P A + stock_level (working c2) P B =
      stock_level (working c) P A + stock_level (working c) P B"
    by simp
  with assms(13) show ?thesis
    by (simp add: get_product_quantity_stock_level)
qed

theorem transfer_conserves_total_witness:
  "effect_of (working demo_db) 5 = - 1 \<and> effect_of (working demo_db) 4 = 1 \<and>
   isl (fst (record_transaction (demo_env {}) demo_db (new_transaction 1 1 5 5))) = False \<and>
   isl (fst (record_transaction (demo_env {})
         (fst (snd (record_transaction (demo_env {}) demo_db (new_transaction 1 1 5 5))))
         (new_transaction 1 2 4 5))) = False \<and>
   (\<exists>a b a' b'.
      fst (get_product_quantity (demo_env {}) demo_db 1 1) = Inr a \<and>
      fst (get_product_quantity (demo_env {}) demo_db 1 2) = Inr b \<and>
      fst (get_product_quantity (demo_env {})
        (fst (snd (record_transaction (demo_env {})
           (fst (snd (record_transaction (demo_env {}) demo_db (new_transaction 1 1 5 5))))
           (new_transaction 1 2 4 5)))) 1 1) = Inr a' \<and>
      fst (get_product_quantity (demo_env {})
        (fst (snd (record_transaction (demo_env {})
           (fst (snd (record_transaction (demo_env {}) demo_db (new_transaction 1 1 5 5))))
           (new_transaction 1 2 4 5)))) 1 2) = Inr b' \<and>
      a' + b' = a + b)"
proof -
  let ?out = "new_transaction 1 1 5 5"
  let ?in = "new_transaction 1 2 4 5"
  let ?r1 = "record_transaction (demo_env {}) demo_db ?out"
  let ?c1 = "fst (snd ?r1)"
  let ?r2 = "record_transaction (demo_env {}) ?c1 ?in"
  let ?c2 = "fst (snd ?r2)"
  have e: "effect_of (working demo_db) 5 = - 1" "effect_of (working demo_db) 4 = 1"
    by (simp_all add: effect_of_def sql_select_affects_def demo_defs)
  have o: "product_id ?out = 1" "location_id ?out = 1" "transaction_type_id ?out = 5"
      "quantity ?out = 5"
    by (simp_all add: new_transaction_def)
  have i: "product_id ?in = 1" "location_id ?in = 2" "transaction_type_id ?in = 4"
      "quantity ?in = 5"
    by (simp_all add: new_transaction_def)
  have v1: "fst ?r1 = Inr 1" by (simp add: model_defs demo_defs)
  have v2: "fst ?r2 = Inr 2" by (simp add: model_defs demo_defs)
  have r1: "?r1 = (Inr 1, ?c1, snd (snd ?r1))" using v1 by (simp add: prod_eq_iff)
  have r2: "?r2 = (Inr 2, ?c2, snd (snd ?r2))" using v2 by (simp add: prod_eq_iff)
  have f: "Select_Quantity \<notin> faults (demo_env {})" by (simp add: demo_env_def)
  from transfer_conserves_total [OF e o i r1 r2 f] e v1 v2 show ?thesis by simp
qed

section \<open>The frame of record_transaction\<close>







lemma find_None_filter: "find P xs = None \<Longrightarrow> filter P xs = []"
  by (simp add: find_filter split: list.splits)

lemma levels_after_zero: "levels_after ev tx 0 T = T"
  by (simp add: levels_after_def)

lemma levels_after_frame:
  "inventory_transactions (levels_after ev tx a T) = inventory_transactions T"
  "products (levels_after ev tx a T) = products T"
  "locations (levels_after ev tx a T) = locations T"
  by (simp_all add: levels_after_def sql_update_inventory_def sql_insert_inventory_def
        split: option.splits)



lemma insert_transaction_frame:
  "inventory (fst (sql_insert_transaction d tx T)) = inventory T"
  "inventory_transactions (fst (sql_insert_transaction d tx T)) =
     inventory_transactions T @ [new_ledger_row (snd (sql_insert_transaction d tx T)) d tx]"
  "products (fst (sql_insert_transaction d tx T)) = products T"
  "locations (fst (sql_insert_transaction d tx T)) = locations T"
  by (simp_all add: sql_insert_transaction_def Let_def)



text \<open>
  Uniqueness of a pair is preserved by every call, successful or not, and so holds in
  every state a sequence of calls reaches from a store where it holds.
\<close>

lemma filter_map_keeping:
  assumes "\<And>x. P (f x) = P x"
  shows "filter P (map f xs) = map f (filter P xs)"
  using assms by (induction xs) auto

lemma levels_after_pair_unique:
  assumes "pair_unique (inventory T) pid lid"
  shows "pair_unique (inventory (levels_after ev tx a T)) pid lid"
proof (cases "a = 0")
  case True
  with assms show ?thesis by (simp add: levels_after_zero)
next
  case False
  show ?thesis
  proof (cases "find (at_pair (product_id tx) (location_id tx)) (inventory T)")
    case None
    then have "filter (at_pair (product_id tx) (location_id tx)) (inventory T) = []"
      by (rule find_None_filter)
    with assms False None show ?thesis
      by (auto simp: levels_after_def sql_select_inventory_def sql_insert_inventory_def
            pair_unique_def at_pair_def)
  next
    case (Some r)
    have "filter (at_pair pid lid)
            (map (\<lambda>i. if at_pair (product_id tx) (location_id tx) i
                       then i\<lparr>i_quantity := i_quantity r + quantity tx * a,
                              i_updated_at := Some (current_timestamp ev)\<rparr>
                       else i) (inventory T)) =
          map (\<lambda>i. if at_pair (product_id tx) (location_id tx) i
                       then i\<lparr>i_quantity := i_quantity r + quantity tx * a,
                              i_updated_at := Some (current_timestamp ev)\<rparr>
                       else i) (filter (at_pair pid lid) (inventory T))"
      by (rule filter_map_keeping) (simp add: at_pair_def)
    with assms False Some show ?thesis
      by (simp add: levels_after_def sql_select_inventory_def sql_update_inventory_def
            pair_unique_def)
  qed
qed

lemma record_transaction_failure_state:
  assumes "record_transaction ev c tx = (Inl e, c', tx')"
  shows "durable c' = durable c \<and> working c' = durable c"
proof -
  obtain r c1 tx1 where t: "record_transaction_try ev c tx = (r, c1, tx1)"
    by (cases "record_transaction_try ev c tx") auto
  with assms have r: "r = Inl e" and out: "c' = rollback c1"
    by (auto simp: record_transaction_def split: sum.splits)
  from t r have "durable c1 = durable c" by (auto dest: try_keeps_durable)
  with out show ?thesis by (simp add: rollback_def)
qed

lemma record_transaction_pair_unique:
  assumes "record_transaction ev c tx = (r, c', tx')"
    and "pair_unique (inventory (working c)) pid lid"
    and "pair_unique (inventory (durable c)) pid lid"
  shows "pair_unique (inventory (working c')) pid lid \<and>
         pair_unique (inventory (durable c')) pid lid"
proof (cases r)
  case (Inl e)
  with assms(1) have "durable c' = durable c \<and> working c' = durable c"
    by (auto dest: record_transaction_failure_state)
  with assms(3) show ?thesis by simp
next
  case (Inr n)
  with assms(1) have "record_transaction_try ev c tx = (Inr n, c', tx')"
    by (auto dest: record_transaction_Inr_try)
  from try_success [OF this]
  obtain x where "sql_select_affects (transaction_type_id tx) (working c) = Some x"
    and d: "durable c' = working c'"
    and w: "working c' = levels_after ev tx' (tt_affects_inventory x)
         (fst (sql_insert_transaction (the (transaction_date tx')) tx' (working c)))"
    by blast
  from assms(2)
  have "pair_unique (inventory (fst (sql_insert_transaction (the (transaction_date tx')) tx' (working c)))) pid lid"
    by (simp add: insert_transaction_frame)
  then have "pair_unique (inventory (working c')) pid lid"
    unfolding w by (rule levels_after_pair_unique)
  with d show ?thesis by simp
qed

lemma replay_pair_unique:
  "pair_unique (inventory (working c)) pid lid \<Longrightarrow>
   pair_unique (inventory (durable c)) pid lid \<Longrightarrow>
   pair_unique (inventory (working (snd (replay c calls)))) pid lid \<and>
   pair_unique (inventory (durable (snd (replay c calls)))) pid lid"
proof (induction calls arbitrary: c)
  case Nil
  then show ?case by simp
next
  case (Cons call calls)
  obtain ev tx where call: "call = (ev, tx)" by (cases call)
  obtain r c' tx' where rt: "record_transaction ev c tx = (r, c', tx')"
    by (cases "record_transaction ev c tx")
  from record_transaction_pair_unique [OF rt Cons.prems]
  have "pair_unique (inventory (working c')) pid lid" "pair_unique (inventory (durable c')) pid lid"
    by simp_all
  from Cons.IH [OF this] call rt show ?case
    by (simp add: case_prod_beta)
qed

section \<open>The date of a candidate\<close>

lemma try_object:
  assumes "Begin_Transaction \<notin> faults ev" and "Select_Transaction_Type \<notin> faults ev"
    and "sql_select_affects (transaction_type_id tx) (working c) = Some r"
  shows "snd (snd (record_transaction_try ev c tx)) =
           (if transaction_date tx = None then tx\<lparr>transaction_date := Some (now ev)\<rparr> else tx)"
  unfolding record_transaction_try_def Let_def case_prod_beta
  using assms by (simp split: sum.splits)

lemma record_transaction_object:
  "snd (snd (record_transaction ev c tx)) = snd (snd (record_transaction_try ev c tx))"
  by (simp add: record_transaction_def split: prod.splits sum.splits)

text \<open>
  Claim C10, as amended. Let the candidate's type be an id of the registry, with \<open>BEGIN\<close>
  and the registry read not refused. If the candidate has no \<open>transaction_date\<close>, the
  caller's object leaves the call with the current time in that field, whether the call
  then succeeds or a later step fails and the database is rolled back; a candidate with a
  date leaves the call unmodified. A successful call stores the ledger row with the date
  the object then carries.
\<close>

theorem record_transaction_stamps_date:
  assumes "Begin_Transaction \<notin> faults ev" and "Select_Transaction_Type \<notin> faults ev"
    and "transaction_type_id tx \<in> tt_transaction_type_id ` set (transaction_types (working c))"
  shows "snd (snd (record_transaction ev c tx)) =
           (if transaction_date tx = None then tx\<lparr>transaction_date := Some (now ev)\<rparr> else tx) \<and>
         (\<forall>n c' tx'. record_transaction ev c tx = (Inr n, c', tx') \<longrightarrow>
            inventory_transactions (working c') =
              inventory_transactions (working c) @
                [new_ledger_row n (the (transaction_date tx')) tx'])"
proof -
  from assms(3) obtain r where r: "sql_select_affects (transaction_type_id tx) (working c) = Some r"
    by (cases "sql_select_affects (transaction_type_id tx) (working c)")
       (auto simp: sql_select_affects_def find_None_iff)
  have obj: "snd (snd (record_transaction ev c tx)) =
           (if transaction_date tx = None then tx\<lparr>transaction_date := Some (now ev)\<rparr> else tx)"
    by (simp only: record_transaction_object try_object [OF assms(1,2) r])
  have stored: "inventory_transactions (working c') =
              inventory_transactions (working c) @
                [new_ledger_row n (the (transaction_date tx')) tx']"
    if ok: "record_transaction ev c tx = (Inr n, c', tx')" for n c' tx'
  proof -
    from try_success [OF record_transaction_Inr_try [OF ok]]
    obtain x where "sql_select_affects (transaction_type_id tx) (working c) = Some x"
      and n: "n = snd (sql_insert_transaction (the (transaction_date tx')) tx' (working c))"
      and w: "working c' = levels_after ev tx' (tt_affects_inventory x)
           (fst (sql_insert_transaction (the (transaction_date tx')) tx' (working c)))"
      by blast
    show ?thesis by (simp only: w levels_after_frame insert_transaction_frame n)
  qed
  from obj stored show ?thesis by blast
qed

theorem record_transaction_stamps_date_witness:
  "Begin_Transaction \<notin> faults (demo_env {Commit}) \<and>
   Select_Transaction_Type \<notin> faults (demo_env {Commit}) \<and>
   1 \<in> tt_transaction_type_id ` set (transaction_types (working demo_db)) \<and>
   isl (fst (record_transaction (demo_env {Commit}) demo_db (new_transaction 1 1 1 10))) \<and>
   transaction_date (snd (snd (record_transaction (demo_env {Commit}) demo_db
      (new_transaction 1 1 1 10)))) = Some ''2024-01-15 10:30:00'' \<and>
   snd (snd (record_transaction (demo_env {}) demo_db
      ((new_transaction 1 1 1 10)\<lparr>transaction_date := Some ''2023-12-31 08:00:00''\<rparr>))) =
     (new_transaction 1 1 1 10)\<lparr>transaction_date := Some ''2023-12-31 08:00:00''\<rparr> \<and>
   map t_transaction_date (inventory_transactions (working (fst (snd
      (record_transaction (demo_env {}) demo_db
        ((new_transaction 1 1 1 10)\<lparr>transaction_date := Some ''2023-12-31 08:00:00''\<rparr>)))))) =
     [''2023-12-31 08:00:00'']"
proof -
  let ?tx = "new_transaction 1 1 1 10"
  let ?dated = "?tx\<lparr>transaction_date := Some ''2023-12-31 08:00:00''\<rparr>"
  have f: "Begin_Transaction \<notin> faults (demo_env {Commit})"
      "Select_Transaction_Type \<notin> faults (demo_env {Commit})"
      "Begin_Transaction \<notin> faults (demo_env {})"
      "Select_Transaction_Type \<notin> faults (demo_env {})"
    by (simp_all add: demo_env_def)
  have t: "transaction_type_id ?tx \<in> tt_transaction_type_id ` set (transaction_types (working demo_db))"
      "transaction_type_id ?dated \<in> tt_transaction_type_id ` set (transaction_types (working demo_db))"
    by (simp_all add: demo_defs)
  have one: "1 \<in> tt_transaction_type_id ` set (transaction_types (working demo_db))"
    by (simp add: demo_defs)
  have fails: "isl (fst (record_transaction (demo_env {Commit}) demo_db ?tx))"
    by (simp add: model_defs demo_defs)
  have ok: "fst (record_transaction (demo_env {}) demo_db ?dated) = Inr 1"
    by (simp add: model_defs demo_defs)
  have r: "record_transaction (demo_env {}) demo_db ?dated =
      (Inr 1, fst (snd (record_transaction (demo_env {}) demo_db ?dated)),
       snd (snd (record_transaction (demo_env {}) demo_db ?dated)))"
    using ok by (simp add: prod_eq_iff)
  have d: "transaction_date ?tx = None" "transaction_date ?dated = Some ''2023-12-31 08:00:00''"
      "now (demo_env {Commit}) = ''2024-01-15 10:30:00''"
      "inventory_transactions (working demo_db) = []"
    by (simp_all add: demo_defs)
  from record_transaction_stamps_date [OF f(1,2) t(1)] d
  have a: "transaction_date (snd (snd (record_transaction (demo_env {Commit}) demo_db ?tx))) =
      Some ''2024-01-15 10:30:00''"
    by simp
  from record_transaction_stamps_date [OF f(3,4) t(2)] d r
  have b: "snd (snd (record_transaction (demo_env {}) demo_db ?dated)) = ?dated \<and>
      map t_transaction_date (inventory_transactions (working (fst (snd
        (record_transaction (demo_env {}) demo_db ?dated))))) = [''2023-12-31 08:00:00'']"
    by (auto simp: new_ledger_row_def)
  from f one fails a b show ?thesis by simp
qed

text \<open>
  The claim as stated, for every candidate without a date, fails for a candidate of an
  unregistered type: the \<open>ValueError\<close> is raised before the date is set, and the object
  keeps \<open>None\<close>.
\<close>

theorem record_transaction_invalid_type_keeps_date:
  "transaction_date (new_transaction 1 1 99 10) = None \<and>
   transaction_date (snd (snd (record_transaction (demo_env {}) demo_db
      (new_transaction 1 1 99 10)))) = None"
  by (simp add: model_defs demo_defs)

section \<open>Quantities that are not positive\<close>

text \<open>
  Claim C4 does not hold of the code. \<open>record_transaction\<close> never looks at the sign of
  \<open>quantity\<close>: where the storage layer accepts the statements, a candidate with quantity
  -5 or 0 is recorded under id 1, the ledger row carries that quantity, and a stock level
  of -5 or 0 is created.
\<close>

theorem record_transaction_accepts_nonpositive_quantity:
  "fst (record_transaction (demo_env {}) demo_db (new_transaction 1 1 1 (- 5))) = Inr 1 \<and>
   map t_quantity (inventory_transactions (durable (fst (snd
     (record_transaction (demo_env {}) demo_db (new_transaction 1 1 1 (- 5))))))) = [- 5] \<and>
   map i_quantity (inventory (durable (fst (snd
     (record_transaction (demo_env {}) demo_db (new_transaction 1 1 1 (- 5))))))) = [- 5] \<and>
   fst (record_transaction (demo_env {}) demo_db (new_transaction 1 1 1 0)) = Inr 1 \<and>
   map t_quantity (inventory_transactions (durable (fst (snd
     (record_transaction (demo_env {}) demo_db (new_transaction 1 1 1 0)))))) = [0] \<and>
   map i_quantity (inventory (durable (fst (snd
     (record_transaction (demo_env {}) demo_db (new_transaction 1 1 1 0)))))) = [0]"
  by (simp add: model_defs demo_defs)

section \<open>The manual recount\<close>

lemmas recount_defs = update_inventory_quantity_def get_product_quantity_def execute_query_def
  execute_insert_def execute_update_def sql_select_quantity_def sql_update_recount_def
  sql_insert_recount_def

lemma zero_stock_db_value:
  "zero_stock_db =
     \<lparr>durable = demo_tables\<lparr>inventory_transactions :=
          [new_ledger_row 1 ''2024-01-15 10:30:00''
             ((new_transaction 1 1 1 5)\<lparr>transaction_date := Some ''2024-01-15 10:30:00''\<rparr>),
           new_ledger_row 2 ''2024-01-15 10:30:00''
             ((new_transaction 1 1 2 5)\<lparr>transaction_date := Some ''2024-01-15 10:30:00''\<rparr>)],
        inventory :=
          [\<lparr>i_inventory_id = 1, i_product_id = 1, i_location_id = 1, i_quantity = 0,
            i_last_counted_at = None, i_updated_at = Some ''2024-01-15 15:30:00''\<rparr>]\<rparr>,
      working = demo_tables\<lparr>inventory_transactions :=
          [new_ledger_row 1 ''2024-01-15 10:30:00''
             ((new_transaction 1 1 1 5)\<lparr>transaction_date := Some ''2024-01-15 10:30:00''\<rparr>),
           new_ledger_row 2 ''2024-01-15 10:30:00''
             ((new_transaction 1 1 2 5)\<lparr>transaction_date := Some ''2024-01-15 10:30:00''\<rparr>)],
        inventory :=
          [\<lparr>i_inventory_id = 1, i_product_id = 1, i_location_id = 1, i_quantity = 0,
            i_last_counted_at = None, i_updated_at = Some ''2024-01-15 15:30:00''\<rparr>]\<rparr>\<rparr>"
  by (simp add: zero_stock_db_def model_defs demo_defs)

text \<open>
  Claim C5 does not hold of the code. In the store left by a purchase and a sale of 5
  the pair (1, 1) has a row of quantity 0. \<open>update_inventory_quantity\<close> to 7 takes that
  row for absent and inserts: where the insert is accepted, the pair has two rows, the
  old one still at 0 and still the one \<open>get_product_quantity\<close> reads; where it is refused
  (a uniqueness constraint), the call raises and the row stays at 0.
\<close>

theorem update_inventory_quantity_misses_zero_row:
  "map i_quantity (inventory (working zero_stock_db)) = [0] \<and>
   fst (update_inventory_quantity (demo_env {}) zero_stock_db 1 1 7 (Some ''2024-02-01 09:00:00'')) =
     Inr True \<and>
   map i_quantity (inventory (working (snd
     (update_inventory_quantity (demo_env {}) zero_stock_db 1 1 7 (Some ''2024-02-01 09:00:00''))))) =
     [0, 7] \<and>
   fst (get_product_quantity (demo_env {}) (snd
     (update_inventory_quantity (demo_env {}) zero_stock_db 1 1 7 (Some ''2024-02-01 09:00:00''))) 1 1) =
     Inr 0 \<and>
   update_inventory_quantity (demo_env {Insert_Recount}) zero_stock_db 1 1 7
       (Some ''2024-02-01 09:00:00'') =
     (Inl (DatabaseError Insert_Recount), zero_stock_db)"
  unfolding zero_stock_db_value
  by (simp add: recount_defs model_defs demo_defs)

section \<open>The transaction history\<close>

lemma concat_map_if:
  "concat (map (\<lambda>x. if P x then f x else []) xs) = concat (map f (filter P xs))"
  by (induction xs) auto

lemma single_filter: "length (filter P xs) = Suc 0 \<Longrightarrow> \<exists>x. filter P xs = [x]"
  by (cases "filter P xs") auto

lemma join_entry:
  assumes "references_resolve T t"
  shows "map h_entry
           [\<lparr>h_entry = t, h_product_name = p_name p, h_sku = p_sku p,
             h_location_name = l_name l, h_transaction_type = tt_name tt\<rparr>.
              p \<leftarrow> products T, t_product_id t = p_product_id p,
              l \<leftarrow> locations T, t_location_id t = l_location_id l,
              tt \<leftarrow> transaction_types T, t_transaction_type_id t = tt_transaction_type_id tt] = [t]"
proof -
  from assms obtain p l tt where
    "filter (\<lambda>p. t_product_id t = p_product_id p) (products T) = [p]"
    "filter (\<lambda>l. t_location_id t = l_location_id l) (locations T) = [l]"
    "filter (\<lambda>tt. t_transaction_type_id t = tt_transaction_type_id tt) (transaction_types T) = [tt]"
    unfolding references_resolve_def by (auto dest!: single_filter)
  then show ?thesis by (simp add: concat_map_if)
qed

lemma history_join_entries:
  assumes "referential_integrity T"
  shows "map h_entry (history_join T) = inventory_transactions T"
proof -
  have "list_all (references_resolve T) ts \<Longrightarrow>
    map h_entry
      [\<lparr>h_entry = t, h_product_name = p_name p, h_sku = p_sku p,
        h_location_name = l_name l, h_transaction_type = tt_name tt\<rparr>.
         t \<leftarrow> ts,
         p \<leftarrow> products T, t_product_id t = p_product_id p,
         l \<leftarrow> locations T, t_location_id t = l_location_id l,
         tt \<leftarrow> transaction_types T, t_transaction_type_id t = tt_transaction_type_id tt] = ts" for ts
  proof (induction ts)
    case Nil
    show ?case by simp
  next
    case (Cons t ts)
    from Cons.prems have "references_resolve T t" and "list_all (references_resolve T) ts"
      by simp_all
    with Cons.IH join_entry [of T t] show ?case by simp
  qed
  with assms show ?thesis by (simp add: history_join_def referential_integrity_def)
qed

lemma newest_first_order: "newest_first (order_by_date_desc rows)"
proof -
  have "sorted (map (\<lambda>h. t_transaction_date (h_entry h))
          (sort_key (\<lambda>h. t_transaction_date (h_entry h)) rows))"
    by (rule sorted_sort_key)
  then show ?thesis
    by (simp add: newest_first_def order_by_date_desc_def sorted_wrt_rev sorted_map)
qed

lemma mset_order: "mset (order_by_date_desc rows) = mset rows"
  by (simp add: order_by_date_desc_def)

text \<open>
  Claim C8, as amended. Let the SELECT not be refused, in a store where every ledger
  entry references exactly one product, location and type. Then
  \<open>get_transaction_history\<close> leaves the connection alone and returns a prefix of an
  arrangement, newest first, of exactly the ledger entries that pass the filters given:
  the first \<open>n\<close> rows for a limit \<open>n\<close> that is not negative, the first 100 when no limit
  is given, and the whole arrangement for a negative limit.
\<close>

theorem get_transaction_history_newest_first:
  assumes "Select_History \<notin> faults ev" and "referential_integrity (working c)"
  shows "\<exists>every.
           mset (map h_entry every) = mset (matching_entries pid lid start_date end_date (working c)) \<and>
           newest_first every \<and>
           get_transaction_history ev c pid lid start_date end_date limit_opt =
             (Inr (case limit_opt of
                     None \<Rightarrow> take 100 every
                   | Some n \<Rightarrow> if n < 0 then every else take (nat n) every), c)"
proof -
  define every where "every = order_by_date_desc
      (filter (\<lambda>h. history_filter pid lid start_date end_date (h_entry h)) (history_join (working c)))"
  have "map h_entry (filter (\<lambda>h. history_filter pid lid start_date end_date (h_entry h))
            (history_join (working c))) =
        filter (history_filter pid lid start_date end_date) (map h_entry (history_join (working c)))"
    by (simp add: filter_map comp_def)
  then have f: "map h_entry (filter (\<lambda>h. history_filter pid lid start_date end_date (h_entry h))
            (history_join (working c))) =
        matching_entries pid lid start_date end_date (working c)"
    by (simp only: history_join_entries [OF assms(2)] matching_entries_def)
  have "mset (map h_entry every) =
      image_mset h_entry (mset (filter (\<lambda>h. history_filter pid lid start_date end_date (h_entry h))
            (history_join (working c))))"
    by (simp only: every_def mset_map mset_order)
  also have "\<dots> = mset (matching_entries pid lid start_date end_date (working c))"
    by (simp only: f [symmetric] mset_map)
  finally have m: "mset (map h_entry every) =
      mset (matching_entries pid lid start_date end_date (working c))" .
  have s: "newest_first every" by (simp add: every_def newest_first_order)
  have g: "get_transaction_history ev c pid lid start_date end_date limit_opt =
             (Inr (case limit_opt of
                     None \<Rightarrow> take 100 every
                   | Some n \<Rightarrow> if n < 0 then every else take (nat n) every), c)"
    using assms(1)
    by (simp add: get_transaction_history_def execute_query_def sql_select_history_def
          sql_limit_def every_def split: option.splits)
  from m s g show ?thesis by blast
qed

lemma history_db_ledger:
  "inventory_transactions (working history_db) =
     [new_ledger_row 1 ''2024-01-10 09:00:00'' (new_transaction 1 1 1 10),
      new_ledger_row 2 ''2024-01-12 14:00:00'' (new_transaction 1 1 5 3),
      new_ledger_row 3 ''2024-01-11 08:00:00'' (new_transaction 1 2 4 3)]"
  "transaction_types (working history_db) = transaction_types demo_tables"
  "products (working history_db) = products demo_tables"
  "locations (working history_db) = locations demo_tables"
  by (simp_all add: history_db_def model_defs demo_defs)

lemmas history_defs = get_transaction_history_def execute_query_def sql_select_history_def
  sql_limit_def order_by_date_desc_def history_join_def history_filter_def

theorem get_transaction_history_newest_first_witness:
  "Select_History \<notin> faults (demo_env {}) \<and> referential_integrity (working history_db) \<and>
   (\<exists>every.
      mset (map h_entry every) = mset (matching_entries (Some 1) None None None (working history_db)) \<and>
      newest_first every \<and>
      get_transaction_history (demo_env {}) history_db (Some 1) None None None (Some 2) =
        (Inr (take 2 every), history_db)) \<and>
   map (\<lambda>h. t_transaction_id (h_entry h))
     (projr (fst (get_transaction_history (demo_env {}) history_db (Some 1) None None None (Some 2)))) =
     [2, 3]"
proof -
  have f: "Select_History \<notin> faults (demo_env {})" by (simp add: demo_env_def)
  have i: "referential_integrity (working history_db)"
    by (simp add: referential_integrity_def references_resolve_def history_db_ledger
          new_ledger_row_def demo_defs)
  have v: "map (\<lambda>h. t_transaction_id (h_entry h))
     (projr (fst (get_transaction_history (demo_env {}) history_db (Some 1) None None None (Some 2)))) =
     [2, 3]"
    by (simp add: history_defs history_db_ledger new_ledger_row_def demo_defs)
  from get_transaction_history_newest_first [OF f i, of "Some 1" None None None "Some 2"] f i v
  show ?thesis by simp
qed

text \<open>
  The claim as stated, at most \<open>limit\<close> rows for every limit, fails for a negative limit:
  with limit -1 all three entries of the store come back.
\<close>

theorem get_transaction_history_negative_limit:
  "\<not> isl (fst (get_transaction_history (demo_env {}) history_db None None None None (Some (- 1)))) \<and>
   map (\<lambda>h. t_transaction_id (h_entry h))
     (projr (fst (get_transaction_history (demo_env {}) history_db None None None None (Some (- 1))))) =
     [2, 3, 1] \<and>
   \<not> int (length (projr (fst
       (get_transaction_history (demo_env {}) history_db None None None None (Some (- 1)))))) \<le> - 1"
  by (simp add: history_defs history_db_ledger new_ledger_row_def demo_defs)

section \<open>A pair with two rows\<close>



section \<open>Outcomes of record_transaction\<close>

text \<open>
  With no statement refused, a candidate of a registered type is always recorded,
  whatever its quantity.
\<close>

lemma record_transaction_succeeds:
  assumes "faults ev = {}"
    and "transaction_type_id tx \<in> tt_transaction_type_id ` set (transaction_types (working c))"
  shows "\<exists>n c' tx'. record_transaction ev c tx = (Inr n, c', tx')"
proof -
  from assms(2) obtain r where r: "sql_select_affects (transaction_type_id tx) (working c) = Some r"
    by (cases "sql_select_affects (transaction_type_id tx) (working c)")
       (auto simp: sql_select_affects_def find_None_iff)
  have "\<not> isl (fst (record_transaction_try ev c tx))"
    unfolding record_transaction_try_def update_levels_def Let_def case_prod_beta
    using assms(1) r by (simp split: option.splits)
  then have "\<not> isl (fst (record_transaction ev c tx))"
    by (cases "record_transaction_try ev c tx")
       (auto simp: record_transaction_def split: sum.splits)
  then obtain n where "fst (record_transaction ev c tx) = Inr n"
    by (cases "fst (record_transaction ev c tx)") auto
  then show ?thesis
    by (cases "record_transaction ev c tx") auto
qed

text \<open>
  A refusal of the ledger insert, of the stock-level read, update or insert, or of the
  commit: each raises, and leaves the store as it was and the candidate dated.
\<close>

lemma refused_statement_rolls_back:
  "record_transaction (demo_env {Insert_Transaction}) zero_stock_db (new_transaction 1 1 1 4) =
     (Inl (DatabaseError Insert_Transaction), zero_stock_db,
      (new_transaction 1 1 1 4)\<lparr>transaction_date := Some ''2024-01-15 10:30:00''\<rparr>)"
  "record_transaction (demo_env {Select_Inventory}) zero_stock_db (new_transaction 1 1 1 4) =
     (Inl (DatabaseError Select_Inventory), zero_stock_db,
      (new_transaction 1 1 1 4)\<lparr>transaction_date := Some ''2024-01-15 10:30:00''\<rparr>)"
  "record_transaction (demo_env {Update_Inventory}) zero_stock_db (new_transaction 1 1 1 4) =
     (Inl (DatabaseError Update_Inventory), zero_stock_db,
      (new_transaction 1 1 1 4)\<lparr>transaction_date := Some ''2024-01-15 10:30:00''\<rparr>)"
  "record_transaction (demo_env {Insert_Inventory}) zero_stock_db (new_transaction 2 1 1 4) =
     (Inl (DatabaseError Insert_Inventory), zero_stock_db,
      (new_transaction 2 1 1 4)\<lparr>transaction_date := Some ''2024-01-15 10:30:00''\<rparr>)"
  "record_transaction (demo_env {Commit}) zero_stock_db (new_transaction 1 1 1 4) =
     (Inl (DatabaseError Commit), zero_stock_db,
      (new_transaction 1 1 1 4)\<lparr>transaction_date := Some ''2024-01-15 10:30:00''\<rparr>)"
  unfolding zero_stock_db_value
  by (simp_all add: model_defs demo_defs)

end
